theory Spec2Isabelle
  imports Complex_Main "HOL-Library.Log_Nat"
begin

section \<open>Single-precision arithmetic of the simulated temperature\<close>

text \<open>
  The telemetry record holds a C \<^verbatim>\<open>float\<close>, and the timer handler computes
  \<^verbatim>\<open>((float)(rand() % 41)) / 20.0f - 1.0f\<close> and \<^verbatim>\<open>telemetry.temperature += delta\<close>
  in that type. A binary32 value is modelled by the rational number it denotes, or by one of
  the two infinities or NaN. Every operation computes the exact rational result and rounds it
  to the nearest binary32 value, ties to the even significand (24 significant bits, least
  exponent \<open>-126\<close> for subnormals, overflow to infinity from \<open>2^128\<close> on). The sign of a zero
  is not represented.
\<close>

datatype float32 = Finite rat | PlusInfinity | MinusInfinity | NaN

definition pow2 :: "int \<Rightarrow> rat" where
  "pow2 e = (if 0 \<le> e then 2 ^ nat e else 1 / 2 ^ nat (- e))"

definition floor_log2 :: "rat \<Rightarrow> int" where
  \<comment> \<open>for \<open>a = p / q > 0\<close> in lowest terms: the \<open>e\<close> with \<open>2^e \<le> a < 2^(e+1)\<close>\<close>
  "floor_log2 a = (case quotient_of a of (p, q) \<Rightarrow>
     (let d = bitlen p - bitlen q in if pow2 d \<le> a then d else d - 1))"

definition round_half_even :: "rat \<Rightarrow> int" where
  "round_half_even q = (let f = \<lfloor>q\<rfloor>; r = q - of_int f in
     if r < 1 / 2 then f else if 1 / 2 < r then f + 1 else if even f then f else f + 1)"

definition round_binary32 :: "rat \<Rightarrow> rat" where
  "round_binary32 x = (if x = 0 then 0 else
     (let a = \<bar>x\<bar>; e = max (floor_log2 a) (- 126); u = pow2 (e - 23)
      in sgn x * of_int (round_half_even (a / u)) * u))"

definition f32_round :: "rat \<Rightarrow> float32" where
  "f32_round x = (let y = round_binary32 x in
     if 2 ^ 128 \<le> \<bar>y\<bar> then (if 0 < y then PlusInfinity else MinusInfinity) else Finite y)"

definition f32_of_int :: "int \<Rightarrow> float32" where
  \<comment> \<open>the conversion \<^verbatim>\<open>(float) k\<close>\<close>
  "f32_of_int k = f32_round (of_int k)"

fun f32_neg :: "float32 \<Rightarrow> float32" where
  "f32_neg (Finite a) = Finite (- a)"
| "f32_neg PlusInfinity = MinusInfinity"
| "f32_neg MinusInfinity = PlusInfinity"
| "f32_neg NaN = NaN"

fun f32_add :: "float32 \<Rightarrow> float32 \<Rightarrow> float32" where
  "f32_add (Finite a) (Finite b) = f32_round (a + b)"
| "f32_add NaN _ = NaN"
| "f32_add _ NaN = NaN"
| "f32_add PlusInfinity MinusInfinity = NaN"
| "f32_add MinusInfinity PlusInfinity = NaN"
| "f32_add PlusInfinity _ = PlusInfinity"
| "f32_add MinusInfinity _ = MinusInfinity"
| "f32_add _ PlusInfinity = PlusInfinity"
| "f32_add _ MinusInfinity = MinusInfinity"

definition f32_sub :: "float32 \<Rightarrow> float32 \<Rightarrow> float32" where
  "f32_sub a b = f32_add a (f32_neg b)"

fun f32_div :: "float32 \<Rightarrow> float32 \<Rightarrow> float32" where
  \<comment> \<open>a quotient by zero takes the sign of the dividend, zeros being unsigned here;
      the program divides by the constant \<^verbatim>\<open>20.0f\<close> only\<close>
  "f32_div (Finite a) (Finite b) =
     (if b = 0 then (if a = 0 then NaN else if 0 < a then PlusInfinity else MinusInfinity)
      else f32_round (a / b))"
| "f32_div NaN _ = NaN"
| "f32_div _ NaN = NaN"
| "f32_div (Finite a) _ = Finite 0"
| "f32_div PlusInfinity (Finite b) = (if 0 \<le> b then PlusInfinity else MinusInfinity)"
| "f32_div MinusInfinity (Finite b) = (if 0 \<le> b then MinusInfinity else PlusInfinity)"
| "f32_div _ _ = NaN"


section \<open>Types of the interfaces the application is written against\<close>

text \<open>
  The headers \<^verbatim>\<open>exitcodes.h\<close>, \<^verbatim>\<open>cloud.h\<close> and \<^verbatim>\<open>user_interface.h\<close> are not among the
  sources at hand. The enumerators below are the ones \<^verbatim>\<open>main.c\<close> names;
  \<open>ExitCode_Other\<close> stands for every further exit code that the user interface or the
  cloud module may return or report.
\<close>

datatype ExitCode =
    ExitCode_Success
  | ExitCode_TermHandler_SigTerm
  | ExitCode_Main_EventLoopFail
  | ExitCode_TelemetryTimer_Consume
  | ExitCode_Init_EventLoop
  | ExitCode_Init_TelemetryTimer
  | ExitCode_Init_OpenMaster
  | ExitCode_Init_SetBusSpeed
  | ExitCode_Init_SetTimeout
  | ExitCode_Init_SetDefaultTarget
  | ExitCode_Other nat

datatype Cloud_Result = Cloud_Result_OK | Cloud_Result_NoNetwork | Cloud_Result_OtherFailure

datatype UserInterface_Button = UserInterface_Button_A | UserInterface_Button_B

text \<open>
  Calls that leave the application are recorded in the order in which they are made. A
  pointer is \<open>None\<close> when it is \<^verbatim>\<open>NULL\<close>. \<open>Log_Debug\<close> carries the format string and the
  arguments it is called with.
\<close>

datatype log_arg = Arg_s string | Arg_d int

datatype call =
    Log_Debug string "log_arg list"
  | UserInterface_SetStatus bool
  | Cloud_SendThermometerTelemetryUploadEnabledChangedEvent bool
  | Cloud_SendThermometerMovedEvent int
  | Cloud_SendDeviceDetails string
  | Cloud_SendTelemetry float32 int
  | ConsumeEventLoopTimerEvent "nat option"
  | sigaction_SIGTERM
  | EventLoop_Create
  | CreateEventLoopPeriodicTimer "nat option" int int
  | UserInterface_Initialise "nat option"
  | I2CMaster_Open
  | I2CMaster_SetBusSpeed int
  | I2CMaster_SetTimeout int int
  | I2CMaster_SetDefaultTargetAddress int int
  | Options_GetConnectionContext
  | Cloud_Initialize "nat option"
  | DisposeEventLoopTimer "nat option"
  | Cloud_Cleanup
  | UserInterface_Cleanup
  | Connection_Cleanup
  | EventLoop_Close "nat option"
  | close_fd int
  | Networking_IsNetworkingReady
  | Options_ParseArgs
  | EventLoop_Run "nat option"


section \<open>The state of the application\<close>

text \<open>
  The file-scope variables of \<^verbatim>\<open>main.c\<close>, and the function-scope static
  \<^verbatim>\<open>telemetry\<close> of the timer handler, whose only field used is the temperature.
\<close>

record globals =
  exitCode :: ExitCode
  i2cFd :: int
  eventLoop :: "nat option"
  telemetryTimer :: "nat option"
  isConnected :: bool
  telemetryUploadEnabled :: bool
  telemetry_temperature :: float32

definition serialNumber :: string where
  "serialNumber = ''TEMPMON-01234''"

definition sht31Address :: int where
  "sht31Address = 68 * 2"

definition initial_globals :: globals where
  "initial_globals =
     \<lparr> exitCode = ExitCode_Success,
       i2cFd = - 1,
       eventLoop = None,
       telemetryTimer = None,
       isConnected = False,
       telemetryUploadEnabled = False,
       telemetry_temperature = Finite 50 \<rparr>"


section \<open>Handlers\<close>

text \<open>
  Each handler takes what the environment answers during the call (the result of the
  cloud call, the clock, the pseudo-random number, the result of consuming the timer
  event) and returns the state it leaves together with the calls it made.
\<close>

definition TerminationHandler :: "int \<Rightarrow> globals \<Rightarrow> globals" where
  "TerminationHandler signalNumber g = g\<lparr>exitCode := ExitCode_TermHandler_SigTerm\<rparr>"

definition ExitCodeCallbackHandler :: "ExitCode \<Rightarrow> globals \<Rightarrow> globals" where
  "ExitCodeCallbackHandler ec g = g\<lparr>exitCode := ec\<rparr>"

fun CloudResultToString :: "Cloud_Result \<Rightarrow> string" where
  \<comment> \<open>the \<^verbatim>\<open>return "Unknown Cloud_Result"\<close> after the switch is reached by none of the three
      enumerators\<close>
  "CloudResultToString Cloud_Result_OK = ''OK''"
| "CloudResultToString Cloud_Result_NoNetwork = ''No network connection available''"
| "CloudResultToString Cloud_Result_OtherFailure = ''Other failure''"

definition enabled_text :: "bool \<Rightarrow> string" where
  \<comment> \<open>\<^verbatim>\<open>uploadEnabled ? "enabled" : "disabled"\<close>\<close>
  "enabled_text b = (if b then ''enabled'' else ''disabled'')"

definition SetThermometerTelemetryUploadEnabled ::
    "bool \<Rightarrow> Cloud_Result \<Rightarrow> globals \<Rightarrow> globals \<times> call list" where
  "SetThermometerTelemetryUploadEnabled uploadEnabled result g =
     (g\<lparr>telemetryUploadEnabled := uploadEnabled\<rparr>,
      [UserInterface_SetStatus uploadEnabled,
       Cloud_SendThermometerTelemetryUploadEnabledChangedEvent uploadEnabled] @
      (if result \<noteq> Cloud_Result_OK
       then [Log_Debug
          (''WARNING: Could not send thermometer telemetry upload enabled changed event to cloud: ''
             @ ''%s'' @ [CHR 0x0A])
          [Arg_s (CloudResultToString result)]]
       else []))"

definition DeviceMoved :: "int \<Rightarrow> Cloud_Result \<Rightarrow> globals \<Rightarrow> globals \<times> call list" where
  "DeviceMoved now result g =
     (g,
      [Log_Debug (''INFO: Device moved.'' @ [CHR 0x0A]) [],
       Cloud_SendThermometerMovedEvent now] @
      (if result \<noteq> Cloud_Result_OK
       then [Log_Debug
          (''WARNING: Could not send thermometer moved event to cloud: %s'' @ [CHR 0x0A])
          [Arg_s (CloudResultToString result)]]
       else []))"

definition ButtonPressedCallbackHandler ::
    "UserInterface_Button \<Rightarrow> int \<Rightarrow> Cloud_Result \<Rightarrow> globals \<Rightarrow> globals \<times> call list" where
  "ButtonPressedCallbackHandler button now result g =
     (if button = UserInterface_Button_A then
        (let newTelemetryUploadEnabled = \<not> telemetryUploadEnabled g;
             (g', calls) = SetThermometerTelemetryUploadEnabled newTelemetryUploadEnabled result g
         in (g',
             Log_Debug
               (''INFO: Telemetry upload enabled state changed (via button press): %s'' @ [CHR 0x0A])
               [Arg_s (enabled_text newTelemetryUploadEnabled)] # calls))
      else if button = UserInterface_Button_B then DeviceMoved now result g
      else (g, []))"

definition CloudTelemetryUploadEnabledChangedCallbackHandler ::
    "bool \<Rightarrow> Cloud_Result \<Rightarrow> globals \<Rightarrow> globals \<times> call list" where
  "CloudTelemetryUploadEnabledChangedCallbackHandler uploadEnabled result g =
     (let (g', calls) = SetThermometerTelemetryUploadEnabled uploadEnabled result g
      in (g',
          Log_Debug
            (''INFO: Thermometer telemetry upload enabled state changed (via cloud): %s''
               @ [CHR 0x0A])
            [Arg_s (enabled_text uploadEnabled)] # calls))"

definition DisplayAlertCallbackHandler :: "string \<Rightarrow> globals \<Rightarrow> globals \<times> call list" where
  "DisplayAlertCallbackHandler alertMessage g =
     (g, [Log_Debug (''ALERT: %s'' @ [CHR 0x0A]) [Arg_s alertMessage]])"

definition ConnectionChangedCallbackHandler ::
    "bool \<Rightarrow> Cloud_Result \<Rightarrow> globals \<Rightarrow> globals \<times> call list" where
  "ConnectionChangedCallbackHandler connected' result g =
     (let g' = g\<lparr>isConnected := connected'\<rparr> in
      if isConnected g' then
        (g',
         [Cloud_SendDeviceDetails serialNumber] @
         (if result \<noteq> Cloud_Result_OK
          then [Log_Debug (''WARNING: Could not send device details to cloud: %s'' @ [CHR 0x0A])
                  [Arg_s (CloudResultToString result)]]
          else []))
      else (g', []))"

definition temperature_delta :: "nat \<Rightarrow> float32" where
  \<comment> \<open>\<^verbatim>\<open>((float)(rand() % 41)) / 20.0f - 1.0f\<close>, for the number \<open>r\<close> that \<^verbatim>\<open>rand()\<close> returns,
      which is never negative\<close>
  "temperature_delta r =
     f32_sub (f32_div (f32_of_int (int r mod 41)) (Finite 20)) (Finite 1)"

definition TelemetryTimerCallbackHandler ::
    "int \<Rightarrow> int \<Rightarrow> nat \<Rightarrow> Cloud_Result \<Rightarrow> globals \<Rightarrow> globals \<times> call list" where
  "TelemetryTimerCallbackHandler consumed now r result g =
     (if consumed \<noteq> 0 then
        (g\<lparr>exitCode := ExitCode_TelemetryTimer_Consume\<rparr>,
         [ConsumeEventLoopTimerEvent (telemetryTimer g)])
      else if isConnected g then
        (if telemetryUploadEnabled g then
           (let delta = temperature_delta r;
                g' = g\<lparr>telemetry_temperature := f32_add (telemetry_temperature g) delta\<rparr>
            in (g',
                [ConsumeEventLoopTimerEvent (telemetryTimer g),
                 Cloud_SendTelemetry (telemetry_temperature g') now] @
                (if result \<noteq> Cloud_Result_OK
                 then [Log_Debug
                    (''WARNING: Could not send thermometer telemetry to cloud: %s'' @ [CHR 0x0A])
                    [Arg_s (CloudResultToString result)]]
                 else [])))
         else
           (g,
            [ConsumeEventLoopTimerEvent (telemetryTimer g),
             Log_Debug (''INFO: Telemetry upload disabled; not sending telemetry.'' @ [CHR 0x0A])
               []]))
      else (g, [ConsumeEventLoopTimerEvent (telemetryTimer g)]))"


section \<open>Start-up and shutdown\<close>

text \<open>
  What the environment answers to the calls of \<open>InitPeripheralsAndHandlers\<close>; \<open>errno\<close> and
  \<open>strerror_errno\<close> are read only after a failed call.
\<close>

record init_env =
  EventLoop_Create_returns :: "nat option"
  CreateEventLoopPeriodicTimer_returns :: "nat option"
  UserInterface_Initialise_returns :: ExitCode
  I2CMaster_Open_returns :: int
  I2CMaster_SetBusSpeed_returns :: int
  I2CMaster_SetTimeout_returns :: int
  I2CMaster_SetDefaultTargetAddress_returns :: int
  Cloud_Initialize_returns :: ExitCode
  errno :: int
  strerror_errno :: string

definition InitPeripheralsAndHandlers ::
    "init_env \<Rightarrow> globals \<Rightarrow> ExitCode \<times> globals \<times> call list" where
  "InitPeripheralsAndHandlers env g =
     (let g1 = g\<lparr>eventLoop := EventLoop_Create_returns env\<rparr>;
          c1 = [sigaction_SIGTERM, EventLoop_Create]
      in if eventLoop g1 = None then
           (ExitCode_Init_EventLoop, g1,
            c1 @ [Log_Debug (''Could not create event loop.'' @ [CHR 0x0A]) []])
      else
     (let g2 = g1\<lparr>telemetryTimer := CreateEventLoopPeriodicTimer_returns env\<rparr>;
          c2 = c1 @ [CreateEventLoopPeriodicTimer (eventLoop g1) 5 0]
      in if telemetryTimer g2 = None then (ExitCode_Init_TelemetryTimer, g2, c2)
      else
     (let interfaceExitCode = UserInterface_Initialise_returns env;
          c3 = c2 @ [UserInterface_Initialise (eventLoop g2)]
      in if interfaceExitCode \<noteq> ExitCode_Success then (interfaceExitCode, g2, c3)
      else
     (let c4 = c3 @ [UserInterface_SetStatus (telemetryUploadEnabled g2)];
          g3 = g2\<lparr>i2cFd := I2CMaster_Open_returns env\<rparr>;
          c5 = c4 @ [I2CMaster_Open]
      in if i2cFd g3 = - 1 then
           (ExitCode_Init_OpenMaster, g3,
            c5 @ [Log_Debug (''ERROR: I2CMaster_Open: errno=%d (%s)'' @ [CHR 0x0A])
                    [Arg_d (errno env), Arg_s (strerror_errno env)]])
      else
     (let c6 = c5 @ [I2CMaster_SetBusSpeed (i2cFd g3)]
      in if I2CMaster_SetBusSpeed_returns env \<noteq> 0 then
           (ExitCode_Init_SetBusSpeed, g3,
            c6 @ [Log_Debug (''ERROR: I2CMaster_SetBusSpeed: errno=%d (%s)'' @ [CHR 0x0A])
                    [Arg_d (errno env), Arg_s (strerror_errno env)]])
      else
     (let c7 = c6 @ [I2CMaster_SetTimeout (i2cFd g3) 100]
      in if I2CMaster_SetTimeout_returns env \<noteq> 0 then
           (ExitCode_Init_SetTimeout, g3,
            c7 @ [Log_Debug (''ERROR: I2CMaster_SetTimeout: errno=%d (%s)'' @ [CHR 0x0A])
                    [Arg_d (errno env), Arg_s (strerror_errno env)]])
      else
     (let c8 = c7 @ [I2CMaster_SetDefaultTargetAddress (i2cFd g3) sht31Address]
      in if I2CMaster_SetDefaultTargetAddress_returns env \<noteq> 0 then
           (ExitCode_Init_SetDefaultTarget, g3,
            c8 @ [Log_Debug
                    (''ERROR: I2CMaster_SetDefaultTargetAddress: errno=%d (%s)'' @ [CHR 0x0A])
                    [Arg_d (errno env), Arg_s (strerror_errno env)]])
      else
        (Cloud_Initialize_returns env, g3,
         c8 @ [Options_GetConnectionContext, Cloud_Initialize (eventLoop g3)]))))))))"

definition CloseFdAndPrintError :: "int \<Rightarrow> string \<Rightarrow> int \<Rightarrow> int \<Rightarrow> string \<Rightarrow> call list" where
  \<comment> \<open>\<open>result\<close> is what \<^verbatim>\<open>close\<close> returns, \<open>err\<close> and \<open>err_text\<close> are \<^verbatim>\<open>errno\<close> and
      \<^verbatim>\<open>strerror(errno)\<close> after it\<close>
  "CloseFdAndPrintError fd fdName result err err_text =
     (if 0 \<le> fd then
        [close_fd fd] @
        (if result \<noteq> 0
         then [Log_Debug (''ERROR: Could not close fd %s: %s (%d).'' @ [CHR 0x0A])
                 [Arg_s fdName, Arg_s err_text, Arg_d err]]
         else [])
      else [])"

definition ClosePeripheralsAndHandlers ::
    "int \<Rightarrow> int \<Rightarrow> string \<Rightarrow> globals \<Rightarrow> globals \<times> call list" where
  "ClosePeripheralsAndHandlers result err err_text g =
     (g,
      [DisposeEventLoopTimer (telemetryTimer g),
       Cloud_Cleanup,
       UserInterface_Cleanup,
       Connection_Cleanup,
       EventLoop_Close (eventLoop g),
       Log_Debug (''Closing file descriptors'' @ [CHR 0x0A]) []] @
      CloseFdAndPrintError (i2cFd g) ''i2c'' result err err_text)"

text \<open>
  The resources of the application, and which call acquires and which call releases each.
  \<open>Connection_Cleanup\<close> has no acquiring call in \<^verbatim>\<open>main.c\<close>.
\<close>

datatype resource =
    Res_EventLoop | Res_TelemetryTimer | Res_UserInterface | Res_Sensor | Res_Cloud
  | Res_Connection

fun acquires :: "call \<Rightarrow> resource option" where
  "acquires EventLoop_Create = Some Res_EventLoop"
| "acquires (CreateEventLoopPeriodicTimer _ _ _) = Some Res_TelemetryTimer"
| "acquires (UserInterface_Initialise _) = Some Res_UserInterface"
| "acquires I2CMaster_Open = Some Res_Sensor"
| "acquires (Cloud_Initialize _) = Some Res_Cloud"
| "acquires _ = None"

fun releases :: "call \<Rightarrow> resource option" where
  "releases (DisposeEventLoopTimer _) = Some Res_TelemetryTimer"
| "releases Cloud_Cleanup = Some Res_Cloud"
| "releases UserInterface_Cleanup = Some Res_UserInterface"
| "releases Connection_Cleanup = Some Res_Connection"
| "releases (EventLoop_Close _) = Some Res_EventLoop"
| "releases (close_fd _) = Some Res_Sensor"
| "releases _ = None"

definition acquisition_order :: "call list \<Rightarrow> resource list" where
  "acquisition_order calls = List.map_filter acquires calls"

definition release_order :: "call list \<Rightarrow> resource list" where
  "release_order calls = List.map_filter releases calls"


section \<open>Sequences of events\<close>

text \<open>
  The dispatch loop runs one handler at a time, to completion. An event names the handler
  that runs and carries what the environment answers while it runs.
\<close>

datatype event =
    Ev_TelemetryTimer int int nat Cloud_Result
  | Ev_ButtonPressed UserInterface_Button int Cloud_Result
  | Ev_CloudTelemetryUploadEnabledChanged bool Cloud_Result
  | Ev_DisplayAlert string
  | Ev_ConnectionChanged bool Cloud_Result
  | Ev_ExitCode ExitCode
  | Ev_Termination int

fun dispatch :: "event \<Rightarrow> globals \<Rightarrow> globals \<times> call list" where
  "dispatch (Ev_TelemetryTimer consumed now r result) g =
     TelemetryTimerCallbackHandler consumed now r result g"
| "dispatch (Ev_ButtonPressed button now result) g =
     ButtonPressedCallbackHandler button now result g"
| "dispatch (Ev_CloudTelemetryUploadEnabledChanged uploadEnabled result) g =
     CloudTelemetryUploadEnabledChangedCallbackHandler uploadEnabled result g"
| "dispatch (Ev_DisplayAlert alertMessage) g = DisplayAlertCallbackHandler alertMessage g"
| "dispatch (Ev_ConnectionChanged c result) g = ConnectionChangedCallbackHandler c result g"
| "dispatch (Ev_ExitCode ec) g = (ExitCodeCallbackHandler ec g, [])"
| "dispatch (Ev_Termination signalNumber) g = (TerminationHandler signalNumber g, [])"

fun run :: "event list \<Rightarrow> globals \<Rightarrow> globals \<times> call list" where
  "run [] g = (g, [])"
| "run (e # es) g =
     (let (g1, c1) = dispatch e g; (g2, c2) = run es g1 in (g2, c1 @ c2))"


section \<open>The main function\<close>

text \<open>
  \<open>InitPeripheralsAndHandlers\<close> installs the handler of the termination signal with its
  first call, so the signal can be delivered while the rest of the function runs. The
  function neither reads nor writes \<open>exitCode\<close>, and the handler writes nothing else, so
  the point of delivery makes no difference to the state the function leaves: the signals
  delivered during the call are applied to that state.
\<close>

definition InitPeripheralsAndHandlers_with_signals ::
    "init_env \<Rightarrow> int list \<Rightarrow> globals \<Rightarrow> ExitCode \<times> globals \<times> call list" where
  "InitPeripheralsAndHandlers_with_signals env signals g =
     (let (ec, g', calls) = InitPeripheralsAndHandlers env g
      in (ec, fold TerminationHandler signals g', calls))"

text \<open>
  One call of \<^verbatim>\<open>EventLoop_Run(eventLoop, -1, true)\<close>: the handlers that run while it waits
  and dispatches (the signal handler among them), what it returns, and \<^verbatim>\<open>errno\<close> after
  it. \<open>EventLoop_Run_Failed\<close> is the result \<^verbatim>\<open>main.c\<close> names; \<open>EventLoop_Run_Finished\<close>
  stands for every other result.
\<close>

datatype EventLoop_Run_Result = EventLoop_Run_Failed | EventLoop_Run_Finished

definition EINTR :: int where
  "EINTR = 4"

record loop_step =
  handled :: "event list"
  EventLoop_Run_returns :: EventLoop_Run_Result
  errno_after_run :: int

text \<open>
  The loop \<^verbatim>\<open>while (exitCode == ExitCode_Success)\<close>. The result is \<open>None\<close> when the steps
  given are used up and the exit code is still \<open>ExitCode_Success\<close>: the program has not left
  the loop and waits in \<^verbatim>\<open>EventLoop_Run\<close>.
\<close>

fun main_loop :: "loop_step list \<Rightarrow> globals \<Rightarrow> (globals \<times> call list) option" where
  "main_loop [] g = (if exitCode g = ExitCode_Success then None else Some (g, []))"
| "main_loop (s # ss) g =
     (if exitCode g = ExitCode_Success then
        (let (g1, c1) = run (handled s) g;
             g2 = (if EventLoop_Run_returns s = EventLoop_Run_Failed \<and> errno_after_run s \<noteq> EINTR
                   then g1\<lparr>exitCode := ExitCode_Main_EventLoopFail\<rparr> else g1)
         in case main_loop ss g2 of
              None \<Rightarrow> None
            | Some (g3, c3) \<Rightarrow> Some (g3, EventLoop_Run (eventLoop g) # c1 @ c3))
      else Some (g, []))"

record main_env =
  Networking_IsNetworkingReady_returns :: int
  isNetworkingReady :: bool
  Options_ParseArgs_returns :: ExitCode
  init_answers :: init_env
  signals_during_init :: "int list"
  loop_steps :: "loop_step list"
  close_returns :: int
  errno_after_close :: int
  strerror_after_close :: string

text \<open>
  \<^verbatim>\<open>main\<close> returns the exit code; the calls made are returned with it.
\<close>

definition main :: "main_env \<Rightarrow> (ExitCode \<times> call list) option" where
  "main env =
     (let c0 = [Log_Debug (''Azure IoT Application starting.'' @ [CHR 0x0A]) [],
                Networking_IsNetworkingReady] @
               (if Networking_IsNetworkingReady_returns env = - 1 \<or> \<not> isNetworkingReady env
                then [Log_Debug
                   (''WARNING: Network is not ready. Device cannot connect until network is ready.''
                      @ [CHR 0x0A]) []]
                else []) @
               [Options_ParseArgs];
          g1 = initial_globals\<lparr>exitCode := Options_ParseArgs_returns env\<rparr>
      in if exitCode g1 \<noteq> ExitCode_Success then Some (exitCode g1, c0)
         else
           (let (ec, g2, c2) =
                  InitPeripheralsAndHandlers_with_signals (init_answers env)
                    (signals_during_init env) g1;
                g3 = g2\<lparr>exitCode := ec\<rparr>
            in case main_loop (loop_steps env) g3 of
                 None \<Rightarrow> None
               | Some (g4, c4) \<Rightarrow>
                   (let (g5, c5) =
                          ClosePeripheralsAndHandlers (close_returns env) (errno_after_close env)
                            (strerror_after_close env) g4
                    in Some (exitCode g5,
                             c0 @ c2 @ c4 @ c5 @
                             [Log_Debug (''Application exiting.'' @ [CHR 0x0A]) []]))))"


section \<open>Kinds of calls\<close>

definition is_log :: "call \<Rightarrow> bool" where
  "is_log c = (case c of Log_Debug _ _ \<Rightarrow> True | _ \<Rightarrow> False)"

definition is_indicator_update :: "call \<Rightarrow> bool" where
  "is_indicator_update c = (case c of UserInterface_SetStatus _ \<Rightarrow> True | _ \<Rightarrow> False)"

definition is_property_echo :: "call \<Rightarrow> bool" where
  "is_property_echo c =
     (case c of Cloud_SendThermometerTelemetryUploadEnabledChangedEvent _ \<Rightarrow> True
      | _ \<Rightarrow> False)"

definition is_send_telemetry :: "call \<Rightarrow> bool" where
  "is_send_telemetry c = (case c of Cloud_SendTelemetry _ _ \<Rightarrow> True | _ \<Rightarrow> False)"

definition is_cloud_send :: "call \<Rightarrow> bool" where
  "is_cloud_send c =
     (case c of
        Cloud_SendThermometerTelemetryUploadEnabledChangedEvent _ \<Rightarrow> True
      | Cloud_SendThermometerMovedEvent _ \<Rightarrow> True
      | Cloud_SendDeviceDetails _ \<Rightarrow> True
      | Cloud_SendTelemetry _ _ \<Rightarrow> True
      | _ \<Rightarrow> False)"


section \<open>Vocabulary of the properties\<close>

definition press_A :: "int \<times> Cloud_Result \<Rightarrow> event" where
  \<comment> \<open>a press of button A, at the given time, to whose notification the cloud answers the
      given result\<close>
  "press_A x = Ev_ButtonPressed UserInterface_Button_A (fst x) (snd x)"

definition reports_success :: "event \<Rightarrow> bool" where
  \<comment> \<open>the exit-code callback invoked with \<open>ExitCode_Success\<close>\<close>
  "reports_success e = (case e of Ev_ExitCode ec \<Rightarrow> ec = ExitCode_Success | _ \<Rightarrow> False)"

fun with_result :: "Cloud_Result \<Rightarrow> event \<Rightarrow> event" where
  \<comment> \<open>the same event, the cloud answering \<open>result\<close> to the send made while it is handled\<close>
  "with_result result (Ev_TelemetryTimer consumed now r _) =
     Ev_TelemetryTimer consumed now r result"
| "with_result result (Ev_ButtonPressed button now _) = Ev_ButtonPressed button now result"
| "with_result result (Ev_CloudTelemetryUploadEnabledChanged uploadEnabled _) =
     Ev_CloudTelemetryUploadEnabledChanged uploadEnabled result"
| "with_result result (Ev_ConnectionChanged c _) = Ev_ConnectionChanged c result"
| "with_result result e = e"

definition all_succeed :: init_env where
  \<comment> \<open>a start-up in which every call succeeds\<close>
  "all_succeed =
     \<lparr> EventLoop_Create_returns = Some 1,
       CreateEventLoopPeriodicTimer_returns = Some 2,
       UserInterface_Initialise_returns = ExitCode_Success,
       I2CMaster_Open_returns = 3,
       I2CMaster_SetBusSpeed_returns = 0,
       I2CMaster_SetTimeout_returns = 0,
       I2CMaster_SetDefaultTargetAddress_returns = 0,
       Cloud_Initialize_returns = ExitCode_Success,
       errno = 0,
       strerror_errno = [] \<rparr>"

definition sigterm_during_startup :: main_env where
  \<comment> \<open>the arguments are parsed, every start-up call succeeds, the termination signal
      (number 15) is delivered while \<open>InitPeripheralsAndHandlers\<close> runs, and nothing
      happens afterwards\<close>
  "sigterm_during_startup =
     \<lparr> Networking_IsNetworkingReady_returns = 0,
       isNetworkingReady = True,
       Options_ParseArgs_returns = ExitCode_Success,
       init_answers = all_succeed,
       signals_during_init = [15],
       loop_steps = [],
       close_returns = 0,
       errno_after_close = 0,
       strerror_after_close = [] \<rparr>"

definition sigterm_in_loop :: main_env where
  \<comment> \<open>the same start-up without a signal; the same signal is delivered during the first
      call of \<^verbatim>\<open>EventLoop_Run\<close>, which it interrupts\<close>
  "sigterm_in_loop =
     \<lparr> Networking_IsNetworkingReady_returns = 0,
       isNetworkingReady = True,
       Options_ParseArgs_returns = ExitCode_Success,
       init_answers = all_succeed,
       signals_during_init = [],
       loop_steps = [\<lparr> handled = [Ev_Termination 15],
                       EventLoop_Run_returns = EventLoop_Run_Failed,
                       errno_after_run = EINTR \<rparr>],
       close_returns = 0,
       errno_after_close = 0,
       strerror_after_close = [] \<rparr>"

definition within_unit :: "float32 \<Rightarrow> bool" where
  \<comment> \<open>a finite value in the closed interval from \<open>-1\<close> to \<open>1\<close>\<close>
  "within_unit x = (case x of Finite d \<Rightarrow> - 1 \<le> d \<and> d \<le> 1 | _ \<Rightarrow> False)"

definition half_ulp :: "rat \<Rightarrow> rat" where
  \<comment> \<open>half of the distance between neighbouring single-precision values at \<open>x\<close>\<close>
  "half_ulp x = (if x = 0 then 0 else pow2 (max (floor_log2 \<bar>x\<bar>) (- 126) - 24))"

definition warm_up :: "event list" where
  \<comment> \<open>the cloud connects, button A enables the upload, \<^verbatim>\<open>rand()\<close> returns 40 on thirteen
      ticks and 21 on the fourteenth\<close>
  "warm_up =
     [Ev_ConnectionChanged True Cloud_Result_OK,
      Ev_ButtonPressed UserInterface_Button_A 0 Cloud_Result_OK] @
     replicate 13 (Ev_TelemetryTimer 0 0 40 Cloud_Result_OK) @
     [Ev_TelemetryTimer 0 0 21 Cloud_Result_OK]"

lemmas handler_defs =
  TelemetryTimerCallbackHandler_def ButtonPressedCallbackHandler_def
  CloudTelemetryUploadEnabledChangedCallbackHandler_def
  SetThermometerTelemetryUploadEnabled_def DeviceMoved_def DisplayAlertCallbackHandler_def
  ConnectionChangedCallbackHandler_def ExitCodeCallbackHandler_def TerminationHandler_def


section \<open>Single-precision rounding is to a nearest value\<close>

lemma pow2_powi: "pow2 e = 2 powi e"
  by (simp add: pow2_def power_int_def field_simps)

lemma pow2_pos: "0 < pow2 e"
  by (simp add: pow2_powi)

lemma pow2_add: "pow2 (a + b) = pow2 a * pow2 b"
  by (simp add: pow2_powi power_int_add)

lemma pow2_mono: "a \<le> b \<Longrightarrow> pow2 a \<le> pow2 b"
  by (simp add: pow2_powi power_int_increasing)

lemma pow2_nat: "0 \<le> e \<Longrightarrow> pow2 e = 2 ^ nat e"
  by (simp add: pow2_def)

lemma bitlen_pow2_bounds:
  assumes "0 < p"
  shows "pow2 (bitlen p - 1) \<le> of_int p" "of_int p < pow2 (bitlen p)"
proof -
  have b1: "1 \<le> bitlen p" using assms by (simp add: bitlen_alt_def)
  have "(2::int) ^ nat (bitlen p - 1) \<le> p" "p < 2 ^ nat (bitlen p)"
    using bitlen_bounds [OF assms] by simp_all
  then have "(of_int (2 ^ nat (bitlen p - 1)) :: rat) \<le> of_int p"
    "(of_int p :: rat) < of_int (2 ^ nat (bitlen p))"
    by (simp_all only: of_int_le_iff of_int_less_iff)
  then show "pow2 (bitlen p - 1) \<le> of_int p" "of_int p < pow2 (bitlen p)"
    using b1 by (simp_all add: pow2_nat)
qed

lemma round_half_even_error: "\<bar>of_int (round_half_even q) - q\<bar> \<le> 1 / 2"
proof -
  have "of_int \<lfloor>q\<rfloor> \<le> q" "q < of_int \<lfloor>q\<rfloor> + 1" by linarith+
  then show ?thesis
    unfolding round_half_even_def Let_def
    by (auto simp: abs_le_iff)
qed


lemma floor_log2_bounds:
  assumes "0 < a"
  shows "pow2 (floor_log2 a) \<le> a \<and> a < pow2 (floor_log2 a + 1)"
proof -
  obtain p q where pq: "quotient_of a = (p, q)" by (cases "quotient_of a")
  have q: "0 < q" using pq by (rule quotient_of_denom_pos)
  have a: "a = of_int p / of_int q" using pq by (rule quotient_of_div)
  have p: "0 < p" using assms q a by (simp add: zero_less_divide_iff)
  define d where "d = bitlen p - bitlen q"
  have qpos: "(0::rat) < of_int q" using q by simp
  have "pow2 (d - 1) * of_int q < pow2 (d - 1) * pow2 (bitlen q)"
    using bitlen_pow2_bounds(2) [OF q] pow2_pos [of "d - 1"] by simp
  also have "\<dots> = pow2 (bitlen p - 1)"
    by (simp add: d_def pow2_add [symmetric])
  also have "\<dots> \<le> of_int p" by (rule bitlen_pow2_bounds(1) [OF p])
  finally have lo: "pow2 (d - 1) < a"
    using qpos by (simp add: a pos_less_divide_eq)
  have "of_int p < pow2 (bitlen p)" by (rule bitlen_pow2_bounds(2) [OF p])
  also have "\<dots> = pow2 (d + 1) * pow2 (bitlen q - 1)"
    by (simp add: d_def pow2_add [symmetric])
  also have "\<dots> \<le> pow2 (d + 1) * of_int q"
    using bitlen_pow2_bounds(1) [OF q] pow2_pos [of "d + 1"] by simp
  finally have hi: "a < pow2 (d + 1)"
    using qpos by (simp add: a pos_divide_less_eq)
  show ?thesis
  proof (cases "pow2 d \<le> a")
    case True
    then show ?thesis using hi pq by (simp add: floor_log2_def Let_def d_def)
  next
    case False
    then show ?thesis using lo pq by (simp add: floor_log2_def Let_def d_def)
  qed
qed

lemma round_binary32_error: "\<bar>round_binary32 x - x\<bar> \<le> half_ulp x"
proof (cases "x = 0")
  case True
  then show ?thesis by (simp add: round_binary32_def half_ulp_def)
next
  case False
  define e where "e = max (floor_log2 \<bar>x\<bar>) (- 126)"
  define u where "u = pow2 (e - 23)"
  define n where "n = round_half_even (\<bar>x\<bar> / u)"
  have u: "0 < u" by (simp add: u_def pow2_pos)
  have r: "round_binary32 x = sgn x * of_int n * u"
    using False by (simp add: round_binary32_def Let_def e_def u_def n_def)
  have "round_binary32 x - x = sgn x * (of_int n * u - \<bar>x\<bar>)"
    by (simp add: r right_diff_distrib sgn_mult_abs mult.assoc)
  then have "\<bar>round_binary32 x - x\<bar> = \<bar>of_int n * u - \<bar>x\<bar>\<bar>"
    using False by (simp add: abs_mult)
  also have "of_int n * u - \<bar>x\<bar> = (of_int n - \<bar>x\<bar> / u) * u"
    using u by (simp add: left_diff_distrib)
  also have "\<bar>(of_int n - \<bar>x\<bar> / u) * u\<bar> = \<bar>of_int n - \<bar>x\<bar> / u\<bar> * u"
    using u by (simp add: abs_mult)
  also have "\<dots> \<le> 1 / 2 * u"
    using round_half_even_error [of "\<bar>x\<bar> / u"] u
    by (intro mult_right_mono) (simp_all add: n_def)
  also have "\<dots> = half_ulp x"
    using False by (simp add: half_ulp_def u_def e_def pow2_powi power_int_diff)
  finally show ?thesis .
qed

lemma f32_round_Finite: "f32_round x = Finite s \<Longrightarrow> s = round_binary32 x"
  by (simp add: f32_round_def Let_def split: if_splits)


section \<open>The upload flag and its single mutation path\<close>

lemma button_A_state:
  "fst (ButtonPressedCallbackHandler UserInterface_Button_A now result g)
     = g\<lparr>telemetryUploadEnabled := \<not> telemetryUploadEnabled g\<rparr>"
  by (simp add: ButtonPressedCallbackHandler_def SetThermometerTelemetryUploadEnabled_def Let_def)

lemma button_A_calls:
  "filter (\<lambda>c. is_indicator_update c \<or> is_property_echo c)
      (snd (ButtonPressedCallbackHandler UserInterface_Button_A now result g))
     = [UserInterface_SetStatus (\<not> telemetryUploadEnabled g),
        Cloud_SendThermometerTelemetryUploadEnabledChangedEvent (\<not> telemetryUploadEnabled g)]"
  by (simp add: ButtonPressedCallbackHandler_def SetThermometerTelemetryUploadEnabled_def
        is_indicator_update_def is_property_echo_def Let_def)

lemma cloud_changed_state:
  "fst (CloudTelemetryUploadEnabledChangedCallbackHandler v result g)
     = g\<lparr>telemetryUploadEnabled := v\<rparr>"
  by (simp add: CloudTelemetryUploadEnabledChangedCallbackHandler_def
        SetThermometerTelemetryUploadEnabled_def)

lemma cloud_changed_calls:
  "filter (\<lambda>c. is_indicator_update c \<or> is_property_echo c)
      (snd (CloudTelemetryUploadEnabledChangedCallbackHandler v result g))
     = [UserInterface_SetStatus v, Cloud_SendThermometerTelemetryUploadEnabledChangedEvent v]"
  by (simp add: CloudTelemetryUploadEnabledChangedCallbackHandler_def
        SetThermometerTelemetryUploadEnabled_def is_indicator_update_def is_property_echo_def)

lemma dispatch_upload_enabled_changes:
  assumes "telemetryUploadEnabled (fst (dispatch e g)) \<noteq> telemetryUploadEnabled g"
  shows "filter (\<lambda>c. is_indicator_update c \<or> is_property_echo c) (snd (dispatch e g))
     = [UserInterface_SetStatus (telemetryUploadEnabled (fst (dispatch e g))),
        Cloud_SendThermometerTelemetryUploadEnabledChangedEvent
          (telemetryUploadEnabled (fst (dispatch e g)))]"
proof (cases e)
  case (Ev_TelemetryTimer consumed now r result)
  with assms show ?thesis
    by (auto simp: TelemetryTimerCallbackHandler_def Let_def split: if_splits)
next
  case (Ev_ButtonPressed button now result)
  show ?thesis
  proof (cases button)
    case UserInterface_Button_A
    with Ev_ButtonPressed show ?thesis by (simp add: button_A_state button_A_calls)
  next
    case UserInterface_Button_B
    with Ev_ButtonPressed assms show ?thesis
      by (simp add: ButtonPressedCallbackHandler_def DeviceMoved_def)
  qed
next
  case (Ev_CloudTelemetryUploadEnabledChanged v result)
  then show ?thesis by (simp add: cloud_changed_state cloud_changed_calls)
next
  case (Ev_DisplayAlert m)
  with assms show ?thesis by (simp add: DisplayAlertCallbackHandler_def)
next
  case (Ev_ConnectionChanged c result)
  with assms show ?thesis
    by (simp add: ConnectionChangedCallbackHandler_def Let_def split: if_splits)
next
  case (Ev_ExitCode ec)
  with assms show ?thesis by (simp add: ExitCodeCallbackHandler_def)
next
  case (Ev_Termination n)
  with assms show ?thesis by (simp add: TerminationHandler_def)
qed

text \<open>
  C1. A press of button A sets \<open>telemetryUploadEnabled\<close> to its negation and a change
  notified by the cloud sets it to the notified value; inside the same handler call, and
  whatever the cloud answers to the notification (success or failure), the calls made
  contain exactly one indicator update followed by exactly one notification of the change,
  both carrying the value the flag has when the handler returns. More generally, whenever
  the handling of any event leaves the flag different from what it was, these are the
  indicator updates and notifications made during that handling.
\<close>

theorem upload_enabled_change_updates_indicator_and_notifies:
  "telemetryUploadEnabled (fst (ButtonPressedCallbackHandler UserInterface_Button_A now result g))
     = (\<not> telemetryUploadEnabled g)
   \<and> filter (\<lambda>c. is_indicator_update c \<or> is_property_echo c)
        (snd (ButtonPressedCallbackHandler UserInterface_Button_A now result g))
     = [UserInterface_SetStatus (\<not> telemetryUploadEnabled g),
        Cloud_SendThermometerTelemetryUploadEnabledChangedEvent (\<not> telemetryUploadEnabled g)]
   \<and> telemetryUploadEnabled (fst (CloudTelemetryUploadEnabledChangedCallbackHandler v result g))
     = v
   \<and> filter (\<lambda>c. is_indicator_update c \<or> is_property_echo c)
        (snd (CloudTelemetryUploadEnabledChangedCallbackHandler v result g))
     = [UserInterface_SetStatus v, Cloud_SendThermometerTelemetryUploadEnabledChangedEvent v]
   \<and> (telemetryUploadEnabled (fst (dispatch e g)) \<noteq> telemetryUploadEnabled g \<longrightarrow>
        filter (\<lambda>c. is_indicator_update c \<or> is_property_echo c) (snd (dispatch e g))
        = [UserInterface_SetStatus (telemetryUploadEnabled (fst (dispatch e g))),
           Cloud_SendThermometerTelemetryUploadEnabledChangedEvent
             (telemetryUploadEnabled (fst (dispatch e g)))])"
  using dispatch_upload_enabled_changes [of e g]
  by (simp add: button_A_state button_A_calls cloud_changed_state cloud_changed_calls)

text \<open>
  The first press of button A, while the cloud answers that there is no network: the flag
  changes from false to true, the indicator is set to true and the change is notified once.
\<close>

theorem upload_enabled_change_witness:
  "telemetryUploadEnabled
       (fst (dispatch (Ev_ButtonPressed UserInterface_Button_A 0 Cloud_Result_NoNetwork)
          initial_globals))
     \<noteq> telemetryUploadEnabled initial_globals
   \<and> filter (\<lambda>c. is_indicator_update c \<or> is_property_echo c)
        (snd (dispatch (Ev_ButtonPressed UserInterface_Button_A 0 Cloud_Result_NoNetwork)
           initial_globals))
     = [UserInterface_SetStatus True,
        Cloud_SendThermometerTelemetryUploadEnabledChangedEvent True]"
  using upload_enabled_change_updates_indicator_and_notifies
    [of 0 Cloud_Result_NoNetwork initial_globals True
        "Ev_ButtonPressed UserInterface_Button_A 0 Cloud_Result_NoNetwork"]
  by (simp add: initial_globals_def)

text \<open>
  C2, as stated, fails: a change of the flag that comes from the cloud is notified back to
  the cloud. From the initial state, with the cloud setting the flag to true, the calls of
  the handler contain the notification of the value true.
\<close>

theorem remote_change_sends_echo_counterexample:
  "Cloud_SendThermometerTelemetryUploadEnabledChangedEvent True
     \<in> set (snd (CloudTelemetryUploadEnabledChangedCallbackHandler True Cloud_Result_OK
                  initial_globals))"
  by (simp add: CloudTelemetryUploadEnabledChangedCallbackHandler_def
        SetThermometerTelemetryUploadEnabled_def)

text \<open>
  C2, amended. When the cloud notifies the value that a press of button A would produce
  (the negation of the current flag), both handlers leave the same state and, after their
  first call, which is a log line naming the origin, make the same calls. Neither origin is
  spared the notification: each handler makes exactly one outbound call, the notification
  of the new value to the cloud.
\<close>

theorem remote_change_and_button_A_same_path:
  "fst (CloudTelemetryUploadEnabledChangedCallbackHandler (\<not> telemetryUploadEnabled g) result g)
     = fst (ButtonPressedCallbackHandler UserInterface_Button_A now result g)
   \<and> tl (snd (CloudTelemetryUploadEnabledChangedCallbackHandler (\<not> telemetryUploadEnabled g)
               result g))
     = tl (snd (ButtonPressedCallbackHandler UserInterface_Button_A now result g))
   \<and> is_log (hd (snd (CloudTelemetryUploadEnabledChangedCallbackHandler
                       (\<not> telemetryUploadEnabled g) result g)))
   \<and> is_log (hd (snd (ButtonPressedCallbackHandler UserInterface_Button_A now result g)))
   \<and> filter is_cloud_send
        (snd (CloudTelemetryUploadEnabledChangedCallbackHandler v result g))
     = [Cloud_SendThermometerTelemetryUploadEnabledChangedEvent v]
   \<and> filter is_cloud_send
        (snd (ButtonPressedCallbackHandler UserInterface_Button_A now result g))
     = [Cloud_SendThermometerTelemetryUploadEnabledChangedEvent (\<not> telemetryUploadEnabled g)]"
  by (simp add: CloudTelemetryUploadEnabledChangedCallbackHandler_def
        ButtonPressedCallbackHandler_def SetThermometerTelemetryUploadEnabled_def
        is_log_def is_cloud_send_def Let_def)

lemma dispatch_press_A:
  "dispatch (press_A x) g
     = ButtonPressedCallbackHandler UserInterface_Button_A (fst x) (snd x) g"
  by (simp add: press_A_def)

lemma run_press_A_flag:
  "telemetryUploadEnabled (fst (run (map press_A xs) g))
     = (telemetryUploadEnabled g \<noteq> (length xs mod 2 = 1))"
proof (induction xs arbitrary: g)
  case Nil
  show ?case by simp
next
  case (Cons x xs)
  have "telemetryUploadEnabled (fst (run (map press_A (x # xs)) g))
      = telemetryUploadEnabled
          (fst (run (map press_A xs) (g\<lparr>telemetryUploadEnabled := \<not> telemetryUploadEnabled g\<rparr>)))"
    using button_A_state [of "fst x" "snd x" g]
    by (simp add: dispatch_press_A split_beta)
  also have "\<dots> = ((\<not> telemetryUploadEnabled g) \<noteq> (length xs mod 2 = 1))"
    by (simp add: Cons.IH)
  also have "\<dots> = (telemetryUploadEnabled g \<noteq> (length (x # xs) mod 2 = 1))"
    by (simp add: mod_Suc)
  finally show ?case .
qed

lemma button_A_indicator:
  "filter is_indicator_update
      (snd (ButtonPressedCallbackHandler UserInterface_Button_A now result g))
     = [UserInterface_SetStatus (\<not> telemetryUploadEnabled g)]"
  by (simp add: ButtonPressedCallbackHandler_def SetThermometerTelemetryUploadEnabled_def
        is_indicator_update_def Let_def)

lemma run_press_A_indicator:
  "length (filter is_indicator_update (snd (run (map press_A xs) g))) = length xs"
proof (induction xs arbitrary: g)
  case Nil
  show ?case by simp
next
  case (Cons x xs)
  show ?case
    using button_A_indicator [of "fst x" "snd x" g]
    by (simp add: dispatch_press_A split_beta Cons.IH)
qed

text \<open>
  C5. Starting from the initial state, after any number \<open>n\<close> of presses of button A
  (at any times, with any answers of the cloud) the flag \<open>telemetryUploadEnabled\<close> is
  true exactly when \<open>n mod 2 = 1\<close>, and the presses have made \<open>n\<close> indicator updates
  in all; each single press, in any state, makes exactly one indicator update during the
  call, carrying the new value of the flag.
\<close>

theorem button_A_presses_toggle:
  "telemetryUploadEnabled (fst (run (map press_A xs) initial_globals))
     = (length xs mod 2 = 1)
   \<and> length (filter is_indicator_update (snd (run (map press_A xs) initial_globals)))
     = length xs
   \<and> filter is_indicator_update
        (snd (ButtonPressedCallbackHandler UserInterface_Button_A now result g))
     = [UserInterface_SetStatus (\<not> telemetryUploadEnabled g)]"
  by (simp add: run_press_A_flag run_press_A_indicator button_A_indicator initial_globals_def)


section \<open>The exit code\<close>

lemma dispatch_keeps_failure:
  "exitCode g \<noteq> ExitCode_Success \<Longrightarrow> \<not> reports_success e \<Longrightarrow>
     exitCode (fst (dispatch e g)) \<noteq> ExitCode_Success"
proof (cases e)
  case (Ev_ButtonPressed button now result)
  assume "exitCode g \<noteq> ExitCode_Success"
  with Ev_ButtonPressed show ?thesis
    by (cases button)
      (simp_all add: ButtonPressedCallbackHandler_def SetThermometerTelemetryUploadEnabled_def
         DeviceMoved_def Let_def)
qed (simp_all add: TelemetryTimerCallbackHandler_def
       CloudTelemetryUploadEnabledChangedCallbackHandler_def
       SetThermometerTelemetryUploadEnabled_def DisplayAlertCallbackHandler_def
       ConnectionChangedCallbackHandler_def ExitCodeCallbackHandler_def TerminationHandler_def
       reports_success_def Let_def)

lemma run_keeps_failure:
  "exitCode g \<noteq> ExitCode_Success \<Longrightarrow> \<not> list_ex reports_success es \<Longrightarrow>
     exitCode (fst (run es g)) \<noteq> ExitCode_Success"
proof (induction es arbitrary: g)
  case Nil
  then show ?case by simp
next
  case (Cons e es)
  from Cons.prems have "exitCode (fst (dispatch e g)) \<noteq> ExitCode_Success"
    by (simp add: dispatch_keeps_failure)
  moreover from Cons.prems have "\<not> list_ex reports_success es" by simp
  ultimately have "exitCode (fst (run es (fst (dispatch e g)))) \<noteq> ExitCode_Success"
    by (rule Cons.IH)
  then show ?case by (simp add: split_beta)
qed

lemma init_signal_commute:
  "InitPeripheralsAndHandlers env (TerminationHandler signalNumber g)
     = (let (ec, g', calls) = InitPeripheralsAndHandlers env g
        in (ec, TerminationHandler signalNumber g', calls))"
  by (simp add: InitPeripheralsAndHandlers_def TerminationHandler_def Let_def)

lemma init_keeps_exit_code:
  "exitCode (fst (snd (InitPeripheralsAndHandlers env g))) = exitCode g"
  by (simp add: InitPeripheralsAndHandlers_def Let_def)

lemma handlers_keep_failure:
  "exitCode g \<noteq> ExitCode_Success \<Longrightarrow> \<not> list_ex reports_success es \<Longrightarrow>
     exitCode (fst (run es g)) \<noteq> ExitCode_Success
     \<and> exitCode (TerminationHandler signalNumber g) \<noteq> ExitCode_Success
     \<and> exitCode (fst (TelemetryTimerCallbackHandler consumed now r result g))
         \<noteq> ExitCode_Success
     \<and> exitCode (ExitCodeCallbackHandler ec g) = ec"
  by (simp add: run_keeps_failure TelemetryTimerCallbackHandler_def TerminationHandler_def
        ExitCodeCallbackHandler_def Let_def)

lemma startup_signal_lost:
  "Options_ParseArgs_returns env = ExitCode_Success \<Longrightarrow>
   fst (InitPeripheralsAndHandlers (init_answers env) initial_globals) = ExitCode_Success \<Longrightarrow>
   loop_steps env = [] \<Longrightarrow> main env = None"
  by (simp add: main_def InitPeripheralsAndHandlers_with_signals_def Let_def split_beta
        initial_globals_def)

text \<open>
  C3. The exit code is meant to keep a failure value once it has one, and the handlers do
  keep it; the program does not. The termination signal is delivered while
  \<open>InitPeripheralsAndHandlers\<close> runs, after the handler was installed, and every start-up
  call succeeds. When the function returns, the handler has stored
  \<open>ExitCode_TermHandler_SigTerm\<close>. The assignment \<^verbatim>\<open>exitCode = InitPeripheralsAndHandlers()\<close>
  then stores the \<open>ExitCode_Success\<close> that the function returns: the loop is entered with
  the exit code \<open>ExitCode_Success\<close> and, nothing else happening, \<^verbatim>\<open>main\<close> does not return.
  The same signal delivered during the first call of \<^verbatim>\<open>EventLoop_Run\<close> ends the loop, and
  \<^verbatim>\<open>main\<close> returns \<open>ExitCode_TermHandler_SigTerm\<close>.
\<close>

theorem sigterm_during_startup_is_lost:
  "fst (InitPeripheralsAndHandlers_with_signals all_succeed [15] initial_globals)
     = ExitCode_Success
   \<and> exitCode (fst (snd (InitPeripheralsAndHandlers_with_signals all_succeed [15]
                           initial_globals)))
     = ExitCode_TermHandler_SigTerm
   \<and> main sigterm_during_startup = None
   \<and> map_option fst (main sigterm_in_loop) = Some ExitCode_TermHandler_SigTerm"
  by (simp add: main_def InitPeripheralsAndHandlers_with_signals_def
        InitPeripheralsAndHandlers_def ClosePeripheralsAndHandlers_def
        sigterm_during_startup_def sigterm_in_loop_def all_succeed_def initial_globals_def
        TerminationHandler_def Let_def)


section \<open>Connection changes\<close>

text \<open>
  C6. A connection notification with value true makes exactly one call of
  \<open>Cloud_SendDeviceDetails\<close>, with the fixed serial number \<open>TEMPMON-01234\<close>, and no other
  outbound call, whatever the connection status was before and whatever the cloud answers;
  two such notifications in a row make the call twice. A notification with value false makes
  no call at all.
\<close>

theorem connection_changed_sends_device_details:
  "filter is_cloud_send (snd (ConnectionChangedCallbackHandler True result g))
     = [Cloud_SendDeviceDetails ''TEMPMON-01234'']
   \<and> isConnected (fst (ConnectionChangedCallbackHandler True result g))
   \<and> filter is_cloud_send
        (snd (ConnectionChangedCallbackHandler True result g) @
         snd (ConnectionChangedCallbackHandler True result'
                (fst (ConnectionChangedCallbackHandler True result g))))
     = [Cloud_SendDeviceDetails ''TEMPMON-01234'', Cloud_SendDeviceDetails ''TEMPMON-01234'']
   \<and> snd (ConnectionChangedCallbackHandler False result g) = []
   \<and> \<not> isConnected (fst (ConnectionChangedCallbackHandler False result g))"
  by (simp add: ConnectionChangedCallbackHandler_def serialNumber_def is_cloud_send_def)


section \<open>The telemetry timer\<close>

text \<open>
  C4. While \<open>isConnected\<close> is false, the timer handler makes no outbound call to the
  cloud, in particular no \<open>Cloud_SendTelemetry\<close>, whatever \<open>telemetryUploadEnabled\<close> is and
  whatever the environment answers.
\<close>

theorem timer_tick_disconnected_sends_nothing:
  "\<not> isConnected g \<Longrightarrow>
     filter is_cloud_send (snd (TelemetryTimerCallbackHandler consumed now r result g)) = []
     \<and> filter is_send_telemetry
          (snd (TelemetryTimerCallbackHandler consumed now r result g)) = []"
  by (simp add: TelemetryTimerCallbackHandler_def is_cloud_send_def is_send_telemetry_def)

text \<open>
  The initial state with the upload enabled is not connected: a tick sends nothing.
\<close>

theorem timer_tick_disconnected_witness:
  "\<not> isConnected (initial_globals\<lparr>telemetryUploadEnabled := True\<rparr>)
   \<and> filter is_cloud_send
        (snd (TelemetryTimerCallbackHandler 0 1700000000 7 Cloud_Result_OK
               (initial_globals\<lparr>telemetryUploadEnabled := True\<rparr>))) = []"
  using timer_tick_disconnected_sends_nothing
    [of "initial_globals\<lparr>telemetryUploadEnabled := True\<rparr>" 0 1700000000 7 Cloud_Result_OK]
  by (simp add: initial_globals_def)

lemma failure_state:
  "fst (dispatch (with_result result e) g) = fst (dispatch (with_result Cloud_Result_OK e) g)"
  by (cases e) (simp_all add: handler_defs Let_def)

lemma failure_calls_log:
  "result \<noteq> Cloud_Result_OK \<Longrightarrow>
   filter is_cloud_send (snd (dispatch (with_result result e) g)) \<noteq> [] \<Longrightarrow>
   \<exists>fmt. snd (dispatch (with_result result e) g)
     = snd (dispatch (with_result Cloud_Result_OK e) g)
       @ [Log_Debug fmt [Arg_s (CloudResultToString result)]]"
  by (cases e) (auto simp add: handler_defs Let_def is_cloud_send_def split: if_splits)

lemma at_most_one_send:
  "length (filter is_cloud_send (snd (dispatch e g))) \<le> 1"
  by (cases e) (simp_all add: handler_defs Let_def is_cloud_send_def)

lemma send_keeps_exit_code:
  "filter is_cloud_send (snd (dispatch e g)) \<noteq> [] \<Longrightarrow> exitCode (fst (dispatch e g)) = exitCode g"
  by (cases e) (auto simp add: handler_defs Let_def is_cloud_send_def split: if_splits)

lemma next_tick_sends:
  "isConnected g \<Longrightarrow> telemetryUploadEnabled g \<Longrightarrow>
   length (filter is_send_telemetry
     (snd (TelemetryTimerCallbackHandler 0 now' r' result'
        (fst (TelemetryTimerCallbackHandler 0 now r result g))))) = 1"
  by (simp add: TelemetryTimerCallbackHandler_def Let_def is_send_telemetry_def)

text \<open>
  C8. Take any event during whose handling an outbound call to the cloud is made, and let
  the cloud answer with a failure (any result other than \<open>Cloud_Result_OK\<close>). The state
  the handler leaves is the one it leaves when the call succeeds, so no variable is changed
  by the handling of the failure, and the exit code is the one before the event. The calls
  made are those of the successful case followed by one log line that names the failure;
  the handling makes exactly one outbound call, so nothing is sent again. After a tick in
  the connected state with the upload enabled, whatever its result, the next tick makes
  exactly one \<open>Cloud_SendTelemetry\<close> call again.
\<close>

theorem send_failure_is_only_logged:
  assumes "result \<noteq> Cloud_Result_OK"
    and "filter is_cloud_send (snd (dispatch (with_result result e) g)) \<noteq> []"
  shows "fst (dispatch (with_result result e) g) = fst (dispatch (with_result Cloud_Result_OK e) g)
    \<and> exitCode (fst (dispatch (with_result result e) g)) = exitCode g
    \<and> (\<exists>fmt. snd (dispatch (with_result result e) g)
          = snd (dispatch (with_result Cloud_Result_OK e) g)
            @ [Log_Debug fmt [Arg_s (CloudResultToString result)]])
    \<and> length (filter is_cloud_send (snd (dispatch (with_result result e) g))) = 1
    \<and> (isConnected g \<and> telemetryUploadEnabled g \<longrightarrow>
         length (filter is_send_telemetry
           (snd (TelemetryTimerCallbackHandler 0 now' r' result'
              (fst (TelemetryTimerCallbackHandler 0 now r result g))))) = 1)"
proof -
  have "length (filter is_cloud_send (snd (dispatch (with_result result e) g))) \<le> 1"
    by (rule at_most_one_send)
  moreover have "length (filter is_cloud_send (snd (dispatch (with_result result e) g))) \<noteq> 0"
    using assms(2) by simp
  ultimately have "length (filter is_cloud_send (snd (dispatch (with_result result e) g))) = 1"
    by linarith
  then show ?thesis
    using assms failure_state [of result e g] send_keeps_exit_code [of "with_result result e" g]
      failure_calls_log [of result e g] next_tick_sends [of g now' r' result' now r result]
    by blast
qed

text \<open>
  A tick in the connected state with the upload enabled, the cloud answering that there is
  no network: the exit code stays \<open>ExitCode_Success\<close> and the next tick sends again.
\<close>

theorem send_failure_witness:
  "Cloud_Result_NoNetwork \<noteq> Cloud_Result_OK
   \<and> filter is_cloud_send
        (snd (dispatch (with_result Cloud_Result_NoNetwork
                 (Ev_TelemetryTimer 0 100 40 Cloud_Result_OK))
               (initial_globals\<lparr>isConnected := True, telemetryUploadEnabled := True\<rparr>))) \<noteq> []
   \<and> isConnected (initial_globals\<lparr>isConnected := True, telemetryUploadEnabled := True\<rparr>)
   \<and> telemetryUploadEnabled
        (initial_globals\<lparr>isConnected := True, telemetryUploadEnabled := True\<rparr>)
   \<and> exitCode (fst (dispatch (with_result Cloud_Result_NoNetwork
                 (Ev_TelemetryTimer 0 100 40 Cloud_Result_OK))
               (initial_globals\<lparr>isConnected := True, telemetryUploadEnabled := True\<rparr>)))
       = ExitCode_Success
   \<and> length (filter is_send_telemetry
        (snd (TelemetryTimerCallbackHandler 0 105 3 Cloud_Result_OK
           (fst (TelemetryTimerCallbackHandler 0 100 40 Cloud_Result_NoNetwork
              (initial_globals\<lparr>isConnected := True, telemetryUploadEnabled := True\<rparr>)))))) = 1"
  using send_failure_is_only_logged
    [of Cloud_Result_NoNetwork "Ev_TelemetryTimer 0 100 40 Cloud_Result_OK"
        "initial_globals\<lparr>isConnected := True, telemetryUploadEnabled := True\<rparr>"
        105 3 Cloud_Result_OK 100 40]
  by (simp add: initial_globals_def TelemetryTimerCallbackHandler_def is_cloud_send_def Let_def)

lemma delta_table: "list_all (\<lambda>k. within_unit (temperature_delta k)) [0..<41]"
  by code_simp

lemma temperature_delta_mod: "temperature_delta r = temperature_delta (r mod 41)"
  by (simp add: temperature_delta_def zmod_int)

lemma temperature_delta_within_unit: "within_unit (temperature_delta r)"
proof -
  have "\<forall>k \<in> set [0..<41]. within_unit (temperature_delta k)"
    using delta_table by (simp only: list_all_iff)
  moreover have "r mod 41 \<in> set [0..<41]" by simp
  ultimately have "within_unit (temperature_delta (r mod 41))" by blast
  then show ?thesis using temperature_delta_mod [of r] by simp
qed

lemma temperature_delta_finite:
  "\<exists>d. temperature_delta r = Finite d \<and> - 1 \<le> d \<and> d \<le> 1"
  using temperature_delta_within_unit [of r]
  by (cases "temperature_delta r") (simp_all add: within_unit_def)

lemma delta_40: "temperature_delta 40 = Finite 1"
  by code_simp

lemma round_51: "f32_round 51 = Finite 51"
  by code_simp

lemma warm_up_state:
  "fst (run warm_up initial_globals)
     = initial_globals\<lparr>isConnected := True, telemetryUploadEnabled := True,
         telemetry_temperature := Finite (16528179 / 262144)\<rparr>"
  by code_simp

lemma warm_up_next:
  "f32_round (16790323 / 262144) = Finite (4197581 / 65536)"
  by code_simp

text \<open>
  C9, as stated, fails in its second half: the sum of the previous temperature and the
  delta is rounded to single precision, and the rounded value can be more than 1.0 away
  from the previous one. After the events of \<open>warm_up\<close> the application is connected, the
  upload is enabled and the temperature is \<open>16528179 / 262144\<close> (about 63.05). On the next
  tick \<^verbatim>\<open>rand()\<close> returns 40, the delta is exactly 1, and the exact sum \<open>16790323 / 262144\<close>
  lies halfway between two single-precision values above 64; it is rounded up to
  \<open>4197581 / 65536\<close>, which is sent, and which exceeds the previous value by
  \<open>1 + 1 / 262144\<close>.
\<close>

theorem measurement_more_than_one_away_counterexample:
  "isConnected (fst (run warm_up initial_globals))
   \<and> telemetryUploadEnabled (fst (run warm_up initial_globals))
   \<and> telemetry_temperature (fst (run warm_up initial_globals)) = Finite (16528179 / 262144)
   \<and> temperature_delta 40 = Finite 1
   \<and> filter is_send_telemetry
        (snd (TelemetryTimerCallbackHandler 0 0 40 Cloud_Result_OK
                (fst (run warm_up initial_globals))))
       = [Cloud_SendTelemetry (Finite (4197581 / 65536)) 0]
   \<and> (1 :: rat) < 4197581 / 65536 - 16528179 / 262144"
  by (simp add: warm_up_state warm_up_next delta_40 TelemetryTimerCallbackHandler_def Let_def
        is_send_telemetry_def)

text \<open>
  C9, amended. For every number that \<^verbatim>\<open>rand()\<close> returns, the delta is a finite value in
  the closed interval from \<open>-1\<close> to \<open>1\<close>. On a tick in the connected state with the upload
  enabled and a finite previous temperature \<open>t\<close>, the measurement stored and sent is the
  single-precision rounding of the exact sum \<open>t + d\<close>. The exact sum is within 1 of the
  previous value; the measurement sent, when finite, is within 1 plus half a unit in the
  last place of the sum.
\<close>

theorem temperature_delta_bounded:
  "\<exists>d. temperature_delta r = Finite d \<and> - 1 \<le> d \<and> d \<le> 1
     \<and> (isConnected g \<and> telemetryUploadEnabled g \<and> telemetry_temperature g = Finite t \<longrightarrow>
          filter is_send_telemetry (snd (TelemetryTimerCallbackHandler 0 now r result g))
            = [Cloud_SendTelemetry (f32_round (t + d)) now]
          \<and> telemetry_temperature (fst (TelemetryTimerCallbackHandler 0 now r result g))
            = f32_round (t + d)
          \<and> \<bar>(t + d) - t\<bar> \<le> 1
          \<and> (\<forall>s. f32_round (t + d) = Finite s \<longrightarrow> \<bar>s - t\<bar> \<le> 1 + half_ulp (t + d)))"
proof -
  obtain d where d: "temperature_delta r = Finite d" "- 1 \<le> d" "d \<le> 1"
    using temperature_delta_finite by blast
  have sent: "isConnected g \<and> telemetryUploadEnabled g \<and> telemetry_temperature g = Finite t \<longrightarrow>
          filter is_send_telemetry (snd (TelemetryTimerCallbackHandler 0 now r result g))
            = [Cloud_SendTelemetry (f32_round (t + d)) now]
          \<and> telemetry_temperature (fst (TelemetryTimerCallbackHandler 0 now r result g))
            = f32_round (t + d)
          \<and> \<bar>(t + d) - t\<bar> \<le> 1"
    using d by (simp add: TelemetryTimerCallbackHandler_def Let_def is_send_telemetry_def abs_le_iff)
  have "\<bar>s - t\<bar> \<le> 1 + half_ulp (t + d)" if "f32_round (t + d) = Finite s" for s
  proof -
    have "s = round_binary32 (t + d)" using that by (rule f32_round_Finite)
    then have "\<bar>s - (t + d)\<bar> \<le> half_ulp (t + d)" by (simp add: round_binary32_error)
    moreover have "\<bar>d\<bar> \<le> 1" using d by (simp add: abs_le_iff)
    ultimately show ?thesis by linarith
  qed
  with d sent show ?thesis by blast
qed

text \<open>
  From 50, with \<^verbatim>\<open>rand()\<close> returning 40, the delta is 1 and the measurement sent is 51.
\<close>

theorem temperature_delta_bounded_witness:
  "isConnected (initial_globals\<lparr>isConnected := True, telemetryUploadEnabled := True\<rparr>)
   \<and> telemetryUploadEnabled
       (initial_globals\<lparr>isConnected := True, telemetryUploadEnabled := True\<rparr>)
   \<and> telemetry_temperature
       (initial_globals\<lparr>isConnected := True, telemetryUploadEnabled := True\<rparr>) = Finite 50
   \<and> temperature_delta 40 = Finite 1
   \<and> f32_round (50 + 1) = Finite 51
   \<and> filter is_send_telemetry
        (snd (TelemetryTimerCallbackHandler 0 100 40 Cloud_Result_OK
           (initial_globals\<lparr>isConnected := True, telemetryUploadEnabled := True\<rparr>)))
       = [Cloud_SendTelemetry (Finite 51) 100]
   \<and> \<bar>51 - 50\<bar> \<le> 1 + half_ulp (50 + 1)"
  using temperature_delta_bounded
    [of 40 "initial_globals\<lparr>isConnected := True, telemetryUploadEnabled := True\<rparr>" 50 100
        Cloud_Result_OK]
  by (auto simp add: initial_globals_def delta_40 round_51)

text \<open>
  C10. The temperature is 50 in the initial state. The signal handler, the exit-code
  callback, the button handler, the handler of a change notified by the cloud, the alert
  handler, the connection handler, the start-up and the shutdown leave it as it is. The
  timer handler changes it only when the timer event was consumed, the application is
  connected and the upload is enabled: it then stores the previous value plus the delta,
  and this stored value is the one passed to \<open>Cloud_SendTelemetry\<close>, whatever the cloud
  answers; in every other case it stores and sends nothing.
\<close>

theorem temperature_changed_by_timer_only:
  "telemetry_temperature initial_globals = Finite 50
   \<and> telemetry_temperature (TerminationHandler signalNumber g) = telemetry_temperature g
   \<and> telemetry_temperature (ExitCodeCallbackHandler ec g) = telemetry_temperature g
   \<and> telemetry_temperature (fst (ButtonPressedCallbackHandler button now result g))
       = telemetry_temperature g
   \<and> telemetry_temperature (fst (CloudTelemetryUploadEnabledChangedCallbackHandler v result g))
       = telemetry_temperature g
   \<and> telemetry_temperature (fst (DisplayAlertCallbackHandler alertMessage g))
       = telemetry_temperature g
   \<and> telemetry_temperature (fst (ConnectionChangedCallbackHandler c result g))
       = telemetry_temperature g
   \<and> telemetry_temperature (fst (snd (InitPeripheralsAndHandlers env g)))
       = telemetry_temperature g
   \<and> telemetry_temperature (fst (ClosePeripheralsAndHandlers close_result err err_text g))
       = telemetry_temperature g
   \<and> telemetry_temperature (fst (TelemetryTimerCallbackHandler consumed now r result g))
       = (if consumed = 0 \<and> isConnected g \<and> telemetryUploadEnabled g
          then f32_add (telemetry_temperature g) (temperature_delta r)
          else telemetry_temperature g)
   \<and> filter is_send_telemetry (snd (TelemetryTimerCallbackHandler consumed now r result g))
       = (if consumed = 0 \<and> isConnected g \<and> telemetryUploadEnabled g
          then [Cloud_SendTelemetry (f32_add (telemetry_temperature g) (temperature_delta r)) now]
          else [])"
  by (cases button)
    (simp_all add: handler_defs InitPeripheralsAndHandlers_def ClosePeripheralsAndHandlers_def
       initial_globals_def Let_def is_send_telemetry_def)


section \<open>The order of start-up and shutdown\<close>

lemma init_all_succeed:
  "InitPeripheralsAndHandlers all_succeed initial_globals =
     (ExitCode_Success,
      initial_globals\<lparr>eventLoop := Some 1, telemetryTimer := Some 2, i2cFd := 3\<rparr>,
      [sigaction_SIGTERM, EventLoop_Create, CreateEventLoopPeriodicTimer (Some 1) 5 0,
       UserInterface_Initialise (Some 1), UserInterface_SetStatus False, I2CMaster_Open,
       I2CMaster_SetBusSpeed 3, I2CMaster_SetTimeout 3 100,
       I2CMaster_SetDefaultTargetAddress 3 136, Options_GetConnectionContext,
       Cloud_Initialize (Some 1)])"
  by (simp add: InitPeripheralsAndHandlers_def all_succeed_def initial_globals_def Let_def
        sht31Address_def)

text \<open>
  C7, as stated, fails: the shutdown order is not the reverse of the start-up order. When
  every start-up call succeeds, the resources are acquired in the order event loop, timer,
  user interface, sensor bus, cloud; the shutdown releases timer, cloud, user interface,
  connection, event loop, sensor bus. The timer is acquired second and released first, and
  the sensor bus is acquired before the cloud and released after it.
\<close>

theorem shutdown_not_reverse_of_startup_counterexample:
  "fst (InitPeripheralsAndHandlers all_succeed initial_globals) = ExitCode_Success
   \<and> acquisition_order (snd (snd (InitPeripheralsAndHandlers all_succeed initial_globals)))
       = [Res_EventLoop, Res_TelemetryTimer, Res_UserInterface, Res_Sensor, Res_Cloud]
   \<and> release_order
        (snd (ClosePeripheralsAndHandlers 0 0 []
               (fst (snd (InitPeripheralsAndHandlers all_succeed initial_globals)))))
       = [Res_TelemetryTimer, Res_Cloud, Res_UserInterface, Res_Connection, Res_EventLoop,
          Res_Sensor]
   \<and> filter (\<lambda>r. r \<noteq> Res_Connection)
        (release_order
          (snd (ClosePeripheralsAndHandlers 0 0 []
                 (fst (snd (InitPeripheralsAndHandlers all_succeed initial_globals))))))
       \<noteq> rev (acquisition_order
                (snd (snd (InitPeripheralsAndHandlers all_succeed initial_globals))))"
  by (simp add: init_all_succeed ClosePeripheralsAndHandlers_def CloseFdAndPrintError_def
        acquisition_order_def release_order_def List.map_filter_simps)

lemma init_success_acquisitions:
  "fst (InitPeripheralsAndHandlers env g) = ExitCode_Success \<Longrightarrow>
   acquisition_order (snd (snd (InitPeripheralsAndHandlers env g)))
     = [Res_EventLoop, Res_TelemetryTimer, Res_UserInterface, Res_Sensor, Res_Cloud]"
  by (simp add: InitPeripheralsAndHandlers_def acquisition_order_def List.map_filter_simps
        Let_def split: if_splits)

lemma close_releases:
  "release_order (snd (ClosePeripheralsAndHandlers result err err_text g))
     = [Res_TelemetryTimer, Res_Cloud, Res_UserInterface, Res_Connection, Res_EventLoop]
       @ (if 0 \<le> i2cFd g then [Res_Sensor] else [])"
  by (simp add: ClosePeripheralsAndHandlers_def CloseFdAndPrintError_def release_order_def
        List.map_filter_simps)

lemma close_state:
  "fst (ClosePeripheralsAndHandlers result err err_text g) = g"
  by (simp add: ClosePeripheralsAndHandlers_def)

text \<open>
  C7, amended. Whatever the state, and whatever closing the descriptor returns, the
  shutdown releases, in this fixed order, the timer, the cloud, the user interface, the
  connection and the event loop, and then the sensor bus if its descriptor is not negative;
  no release depends on the outcome of another, and the state is left as it is. A start-up
  that returns \<open>ExitCode_Success\<close> has acquired, in this order, the event loop, the timer,
  the user interface, the sensor bus and the cloud, so the shutdown order is not its
  reverse.
\<close>

theorem shutdown_order:
  "release_order (snd (ClosePeripheralsAndHandlers result err err_text g))
     = [Res_TelemetryTimer, Res_Cloud, Res_UserInterface, Res_Connection, Res_EventLoop]
       @ (if 0 \<le> i2cFd g then [Res_Sensor] else [])
   \<and> fst (ClosePeripheralsAndHandlers result err err_text g) = g
   \<and> (fst (InitPeripheralsAndHandlers env g) = ExitCode_Success \<longrightarrow>
        acquisition_order (snd (snd (InitPeripheralsAndHandlers env g)))
          = [Res_EventLoop, Res_TelemetryTimer, Res_UserInterface, Res_Sensor, Res_Cloud])"
  using init_success_acquisitions [of env g]
  by (simp add: close_releases close_state)

text \<open>
  After a start-up in which every call succeeds, a shutdown in which closing the
  descriptor fails.
\<close>

theorem shutdown_order_witness:
  "fst (InitPeripheralsAndHandlers all_succeed initial_globals) = ExitCode_Success
   \<and> acquisition_order (snd (snd (InitPeripheralsAndHandlers all_succeed initial_globals)))
       = [Res_EventLoop, Res_TelemetryTimer, Res_UserInterface, Res_Sensor, Res_Cloud]
   \<and> release_order (snd (ClosePeripheralsAndHandlers (- 1) 9 ''Bad file descriptor''
        (fst (snd (InitPeripheralsAndHandlers all_succeed initial_globals)))))
       = [Res_TelemetryTimer, Res_Cloud, Res_UserInterface, Res_Connection, Res_EventLoop,
          Res_Sensor]"
  using shutdown_order [of "- 1" 9 "''Bad file descriptor''"
     "fst (snd (InitPeripheralsAndHandlers all_succeed initial_globals))" all_succeed]
    shutdown_order [of 0 0 "[]" initial_globals all_succeed]
  by (simp add: init_all_succeed)

end
